theory Spec2Isabelle
  imports Complex_Main
begin

text \<open>
  A model of the two helper modules of the repository, the model wrapper
  \<open>PyTorchModel\<close> and the explanation function \<open>explain\<close>, and of the two metrics that
  the tests exercise and the claims are about, Top-K Intersection and Focus.  Python
  functions are functions that return either the raised error or the result; an object
  that a function may change is passed in and returned.
\<close>

section \<open>Arrays, tensors and Python errors\<close>

text \<open>
  A numpy array is its shape and its elements in row-major order.  A torch tensor carries
  in addition the flag \<open>requires_grad\<close> and the name of the device that holds it
  (\<open>''cpu''\<close> for host memory).  Element values are real numbers: rounding, NaN and
  infinities of the float32/float64 representation are not modelled.  An array is
  well formed when it has as many elements as its extents multiply to.
\<close>

record ndarray =
  shape :: "nat list"
  data :: "real list"

record torch_tensor = ndarray +
  requires_grad :: bool
  tensor_device :: string

text \<open>An argument that the code tests with \<open>isinstance(_, torch.Tensor)\<close>.\<close>

datatype array = Ndarray ndarray | Tensor torch_tensor

datatype py_error =
  AssertionError | AttributeError | ValueError | KeyError | RuntimeError | IndexError
  | TypeError | AxisError | ShapeMismatch | MissingModel

text \<open>\<open>d.get(key, default)\<close> for a keyword that is absent (\<open>None\<close>) or present.\<close>

definition kwargs_get :: "'a option \<Rightarrow> 'a \<Rightarrow> 'a" where
  "kwargs_get entry dflt = (case entry of None \<Rightarrow> dflt | Some v \<Rightarrow> v)"

text \<open>
  The keyword dictionary \<open>**kwargs\<close>: one field for every key that the two source
  files look up; \<open>None\<close> means that the key is not in the dictionary.  The keys
  \<open>"abs"\<close> and \<open>"normalize"\<close> are the fields \<open>abs_kw\<close> and \<open>normalize_kw\<close>.
\<close>

datatype fill = FillNum real | FillStr string

record kwargs =
  device :: "string option"
  grad :: "bool option"
  explanation_func :: "string option"
  nr_channels :: "nat option"
  img_size :: "nat option"
  baseline :: "torch_tensor option"
  sliding_window :: "nat list option"
  oc_sliding_window :: "nat list option"
  gc_layer :: "string option"
  fill_value :: "fill option"
  abs_kw :: "bool option"
  pos_only :: "bool option"
  neg_only :: "bool option"
  normalize_kw :: "bool option"

definition no_kwargs :: kwargs where
  "no_kwargs = \<lparr>device = None, grad = None, explanation_func = None, nr_channels = None,
     img_size = None, baseline = None, sliding_window = None, oc_sliding_window = None,
     gc_layer = None, fill_value = None, abs_kw = None, pos_only = None, neg_only = None,
     normalize_kw = None\<rparr>"

text \<open>
  \<open>torch.Tensor(x)\<close>: a fresh tensor in host memory with the elements of \<open>x\<close>, not
  tracking gradients.
\<close>

definition torch_Tensor :: "ndarray \<Rightarrow> torch_tensor" where
  "torch_Tensor x =
     \<lparr>shape = shape x, data = data x, requires_grad = False, tensor_device = ''cpu''\<rparr>"

text \<open>
  \<open>t.to(device)\<close> and \<open>t.cpu()\<close> move a tensor and keep shape, elements and flag;
  \<open>t.to(None)\<close> leaves the tensor where it is.
\<close>

definition to_device :: "torch_tensor \<Rightarrow> string option \<Rightarrow> torch_tensor" where
  "to_device t dev = (case dev of None \<Rightarrow> t | Some name \<Rightarrow> t\<lparr>tensor_device := name\<rparr>)"

definition cpu :: "torch_tensor \<Rightarrow> torch_tensor" where
  "cpu t = t\<lparr>tensor_device := ''cpu''\<rparr>"

text \<open>\<open>t.detach()\<close> (and \<open>t.data\<close>): the same elements, cut off from the gradient graph.\<close>

definition detach :: "torch_tensor \<Rightarrow> torch_tensor" where
  "detach t = t\<lparr>requires_grad := False\<rparr>"

text \<open>The shape and the elements of a tensor as an array.\<close>

definition as_ndarray :: "torch_tensor \<Rightarrow> ndarray" where
  "as_ndarray t = \<lparr>shape = shape t, data = data t\<rparr>"

text \<open>
  \<open>t.numpy()\<close>: torch converts a tensor only when it is in host memory (a \<open>TypeError\<close>
  otherwise) and does not track gradients (a \<open>RuntimeError\<close> otherwise, the gradient mode
  being on).
\<close>

definition numpy :: "torch_tensor \<Rightarrow> py_error + ndarray" where
  "numpy t =
     (if tensor_device t \<noteq> ''cpu'' then Inl TypeError
      else if requires_grad t then Inl RuntimeError
      else Inr (as_ndarray t))"

text \<open>
  \<open>x.reshape(d1, ..., dn)\<close> of numpy with explicit extents: a \<open>ValueError\<close> unless the
  extents multiply to the number of elements.
\<close>

definition reshape :: "ndarray \<Rightarrow> nat list \<Rightarrow> py_error + ndarray" where
  "reshape x new_shape =
     (if prod_list new_shape = length (data x)
      then Inr \<lparr>shape = new_shape, data = data x\<rparr>
      else Inl ValueError)"

section \<open>The model wrapper (quantus/helpers/pytorch\_model.py)\<close>

text \<open>
  The wrapped \<open>torch.nn.Module\<close>: its mode flag \<open>training\<close> and its forward pass.  The
  forward pass is given the gradient mode it runs under (\<open>torch.is_grad_enabled()\<close>), so
  that the mode chosen by the wrapper is visible in the result.  A forward pass is taken
  to leave the module as it is and to return; exceptions raised inside the module are
  not modelled.
\<close>

record torch_module =
  training :: bool
  forward :: "bool \<Rightarrow> torch_tensor \<Rightarrow> torch_tensor"

record PyTorchModel =
  model :: torch_module
  channel_first :: bool

text \<open>
  The two context managers of \<open>predict\<close>.  Inside \<open>torch.no_grad()\<close> gradient tracking is
  off; \<open>contextlib.suppress()\<close> without arguments changes nothing, so the gradient mode
  of the caller stays in force.
\<close>

datatype grad_context = No_grad | Suppress

fun grad_mode_inside :: "grad_context \<Rightarrow> bool \<Rightarrow> bool" where
  "grad_mode_inside No_grad ambient = False"
| "grad_mode_inside Suppress ambient = ambient"

text \<open>
  \<open>torch.nn.Softmax()\<close> with no \<open>dim\<close>: the implicit dimension is 0 for tensors of rank
  0, 1 or 3 and 1 otherwise.
\<close>

definition softmax_implicit_dim :: "nat \<Rightarrow> nat" where
  "softmax_implicit_dim ndim = (if ndim = 0 \<or> ndim = 1 \<or> ndim = 3 then 0 else 1)"

definition softmax_along :: "nat \<Rightarrow> nat list \<Rightarrow> real list \<Rightarrow> real list" where
  "softmax_along d sh xs =
     (if sh = [] then map (\<lambda>x. 1) xs
      else let inner = prod_list (drop (Suc d) sh); n = sh ! d in
        map (\<lambda>i. exp (xs ! i) /
                 (\<Sum>j\<leftarrow>[0..<n]. exp (xs ! ((i div (n * inner)) * n * inner + j * inner + i mod inner))))
            [0..<length xs])"

definition Softmax :: "torch_tensor \<Rightarrow> torch_tensor" where
  "Softmax t = t\<lparr>data := softmax_along (softmax_implicit_dim (length (shape t))) (shape t) (data t)\<rparr>"

text \<open>Line 19: \<open>grad_context = torch.no_grad() if grad else suppress()\<close>.\<close>

definition grad_context_of :: "kwargs \<Rightarrow> grad_context" where
  "grad_context_of kw = (if kwargs_get (grad kw) False then No_grad else Suppress)"

text \<open>
  \<open>PyTorchModel.predict(self, x, softmax_act, **kwargs)\<close>.  \<open>ambient\<close> is the gradient
  mode of the caller (enabled unless the caller switched it off).  The result pairs the
  wrapper after the call with the outcome: the raised error or the returned array.
\<close>

definition predict ::
  "PyTorchModel \<Rightarrow> bool \<Rightarrow> ndarray \<Rightarrow> bool \<Rightarrow> kwargs \<Rightarrow> PyTorchModel \<times> (py_error + ndarray)" where
  "predict self ambient x softmax_act kw =
     (if training (model self) then (self, Inl AttributeError)
      else
        let dev = device kw;
            grad_ctx = grad_context_of kw;
            pred = forward (model self) (grad_mode_inside grad_ctx ambient)
                     (to_device (torch_Tensor x) dev);
            pred = (if softmax_act then Softmax pred else pred)
        in if requires_grad pred
           then (self, numpy (cpu (detach pred)))
           else (self, numpy pred))"

text \<open>
  \<open>PyTorchModel.shape_input(self, x, img_size, nr_channels)\<close>: the reshape comes first,
  the test of \<open>channel_first\<close> second.
\<close>

definition shape_input :: "PyTorchModel \<Rightarrow> ndarray \<Rightarrow> nat \<Rightarrow> nat \<Rightarrow> py_error + ndarray" where
  "shape_input self x img_sz nr_ch =
     (case reshape x [1, nr_ch, img_sz, img_sz] of
        Inl e \<Rightarrow> Inl e
      | Inr x' \<Rightarrow> if channel_first self then Inr x' else Inl ValueError)"

section \<open>The explanation function (xai\_quantification\_toolbox/helpers/explanation\_func.py)\<close>

subsection \<open>Sequencing of steps that may raise\<close>

definition then_do :: "py_error + 'a \<Rightarrow> ('a \<Rightarrow> py_error + 'b) \<Rightarrow> py_error + 'b" where
  "then_do r f = (case r of Inl e \<Rightarrow> Inl e | Inr v \<Rightarrow> f v)"

subsection \<open>Tensor operations used by \<open>explain\<close>\<close>

definition zeros_like :: "torch_tensor \<Rightarrow> torch_tensor" where
  "zeros_like t = \<lparr>shape = shape t, data = map (\<lambda>v. 0) (data t), requires_grad = False,
                   tensor_device = tensor_device t\<rparr>"

definition new_full :: "nat list \<Rightarrow> real \<Rightarrow> torch_tensor" where
  "new_full sh v = \<lparr>shape = sh, data = replicate (prod_list sh) v, requires_grad = False,
                    tensor_device = ''cpu''\<rparr>"

text \<open>
  \<open>t.sum(axis=1)\<close>: the second axis is summed away.  The element at flat position \<open>i\<close> of
  the result collects the \<open>c\<close> elements of the argument that differ only in the index of
  axis 1.  A tensor of rank below two has no axis 1.
\<close>

definition sum_axis1 :: "torch_tensor \<Rightarrow> py_error + torch_tensor" where
  "sum_axis1 t =
     (case shape t of
        b # c # rest \<Rightarrow>
          (let inner = prod_list rest in
           Inr \<lparr>shape = b # rest,
                data = map (\<lambda>i. \<Sum>ch\<leftarrow>[0..<c]. data t ! ((i div inner) * c * inner + ch * inner + i mod inner))
                         [0..<b * inner],
                requires_grad = requires_grad t, tensor_device = tensor_device t\<rparr>)
      | _ \<Rightarrow> Inl IndexError)"

text \<open>\<open>t.min()\<close> and \<open>t.max()\<close> over all elements; torch raises on a tensor without elements.\<close>

definition tensor_min :: "torch_tensor \<Rightarrow> py_error + real" where
  "tensor_min t = (case data t of [] \<Rightarrow> Inl RuntimeError | v # vs \<Rightarrow> Inr (fold min vs v))"

definition tensor_max :: "torch_tensor \<Rightarrow> py_error + real" where
  "tensor_max t = (case data t of [] \<Rightarrow> Inl RuntimeError | v # vs \<Rightarrow> Inr (fold max vs v))"

text \<open>
  \<open>torch.Tensor(a).reshape(-1, c, s, s)\<close>: the leading extent is inferred, which torch
  refuses when the known extents multiply to zero or do not divide the number of
  elements.
\<close>

definition reshape_batch :: "torch_tensor \<Rightarrow> nat list \<Rightarrow> py_error + torch_tensor" where
  "reshape_batch t known =
     (let p = prod_list known; n = length (data t) in
      if p = 0 \<or> n mod p \<noteq> 0 then Inl RuntimeError
      else Inr (t\<lparr>shape := (n div p) # known\<rparr>))"

text \<open>\<open>torch.reshape(input=t, shape=sh)\<close> with explicit extents.\<close>

definition torch_reshape :: "torch_tensor \<Rightarrow> nat list \<Rightarrow> py_error + torch_tensor" where
  "torch_reshape t sh =
     (if prod_list sh = length (data t) then Inr (t\<lparr>shape := sh\<rparr>) else Inl RuntimeError)"

text \<open>\<open>t[i]\<close>: the \<open>i\<close>-th slice along the first axis.\<close>

definition select0 :: "torch_tensor \<Rightarrow> nat \<Rightarrow> torch_tensor" where
  "select0 t i =
     (let sz = prod_list (tl (shape t)) in
      t\<lparr>shape := tl (shape t), data := take sz (drop (i * sz) (data t))\<rparr>)"

text \<open>\<open>np.clip(a, lo, hi)\<close>, elementwise \<open>minimum(hi, maximum(a, lo))\<close>.\<close>

definition np_clip :: "ndarray \<Rightarrow> real \<Rightarrow> real \<Rightarrow> ndarray" where
  "np_clip a lo hi = a\<lparr>data := map (\<lambda>v. min hi (max v lo)) (data a)\<rparr>"

text \<open>
  \<open>a.mean(axis=0)\<close>: the first axis is averaged away; an array of rank 0 has no axis 0.
  (For an empty first axis numpy yields NaN; the quotient by zero is 0 here.)
\<close>

definition mean_axis0 :: "ndarray \<Rightarrow> py_error + ndarray" where
  "mean_axis0 a =
     (case shape a of
        [] \<Rightarrow> Inl AxisError
      | c # rest \<Rightarrow>
          (let inner = prod_list rest in
           Inr \<lparr>shape = rest,
                data = map (\<lambda>j. (\<Sum>ch\<leftarrow>[0..<c]. data a ! (ch * inner + j)) / real c) [0..<inner]\<rparr>))"

text \<open>
  \<open>e[i] = t\<close> for a four-dimensional \<open>e\<close> and a two-dimensional \<open>t\<close> of shape \<open>(s, s)\<close>:
  \<open>t\<close> is broadcast over the slot of shape \<open>(c, h, w)\<close>, which torch accepts when each
  extent of \<open>t\<close> is 1 or equals the extent of the slot at its place.
\<close>

definition setitem0 :: "torch_tensor \<Rightarrow> nat \<Rightarrow> torch_tensor \<Rightarrow> py_error + torch_tensor" where
  "setitem0 e i t =
     (case (tl (shape e), shape t) of
        ([c, h, w], [s1, s2]) \<Rightarrow>
          (if (s1 = h \<or> s1 = 1) \<and> (s2 = w \<or> s2 = 1) then
             (let sz = c * h * w;
                  vs = map (\<lambda>k. data t ! ((if s1 = 1 then 0 else (k div w) mod h) * s2
                                            + (if s2 = 1 then 0 else k mod w)))
                           [0..<sz]
              in Inr (e\<lparr>data := take (i * sz) (data e) @ vs @ drop (Suc i * sz) (data e)\<rparr>))
           else Inl RuntimeError)
      | _ \<Rightarrow> Inl RuntimeError)"

definition tensor_abs :: "torch_tensor \<Rightarrow> torch_tensor" where
  "tensor_abs t = t\<lparr>data := map abs (data t)\<rparr>"

text \<open>\<open>t[cond(t)] = 0.0\<close>: the elements selected by the condition are overwritten with 0.\<close>

definition masked_zero :: "(real \<Rightarrow> bool) \<Rightarrow> torch_tensor \<Rightarrow> torch_tensor" where
  "masked_zero cond t = t\<lparr>data := map (\<lambda>v. if cond v then 0 else v) (data t)\<rparr>"

text \<open>\<open>s.lower()\<close> on ASCII letters.\<close>

definition lower_char :: "char \<Rightarrow> char" where
  "lower_char c = (let n = (of_char c :: nat) in if 65 \<le> n \<and> n \<le> 90 then char_of (n + 32) else c)"

definition lower :: "string \<Rightarrow> string" where
  "lower s = map lower_char s"

definition eval_mode :: "torch_module \<Rightarrow> torch_module" where
  "eval_mode m = m\<lparr>training := False\<rparr>"

subsection \<open>Collaborators\<close>

text \<open>
  What \<open>explain\<close> calls outside this repository's sources: the attribution algorithms of
  captum (each takes the model, the inputs, the targets and its own arguments, and
  returns the attributions), \<open>cv2.resize\<close>, \<open>scipy.ndimage.sobel\<close>, \<open>normalize_heatmap\<close> of
  \<open>utils\<close> (not part of the sources), and the two draws of the \<open>random\<close> module.  They are
  parameters of the model of \<open>explain\<close>; exceptions raised inside them are not modelled.
\<close>

record collaborators =
  GradientShap :: "torch_module \<Rightarrow> torch_tensor \<Rightarrow> torch_tensor \<Rightarrow> torch_tensor \<Rightarrow> torch_tensor"
  IntegratedGradients ::
    "torch_module \<Rightarrow> torch_tensor \<Rightarrow> torch_tensor \<Rightarrow> torch_tensor \<Rightarrow> nat \<Rightarrow> string \<Rightarrow> torch_tensor"
  InputXGradient :: "torch_module \<Rightarrow> torch_tensor \<Rightarrow> torch_tensor \<Rightarrow> torch_tensor"
  Saliency :: "torch_module \<Rightarrow> torch_tensor \<Rightarrow> torch_tensor \<Rightarrow> bool \<Rightarrow> torch_tensor"
  Occlusion :: "torch_module \<Rightarrow> torch_tensor \<Rightarrow> torch_tensor \<Rightarrow> nat list \<Rightarrow> torch_tensor"
  FeatureAblation :: "torch_module \<Rightarrow> torch_tensor \<Rightarrow> torch_tensor \<Rightarrow> torch_tensor"
  LayerGradCam :: "torch_module \<Rightarrow> string \<Rightarrow> torch_tensor \<Rightarrow> torch_tensor \<Rightarrow> torch_tensor"
  cv2_resize :: "ndarray \<Rightarrow> nat \<times> nat \<Rightarrow> ndarray"
  sobel :: "ndarray \<Rightarrow> ndarray"
  normalize_heatmap :: "torch_tensor \<Rightarrow> array"
  random_random :: real
  random_uniform :: "real \<Rightarrow> real \<Rightarrow> real"

subsection \<open>\<open>explain\<close>\<close>

text \<open>
  The Sobel control variant of one array: convert to numpy, filter, clip to \<open>[0, 1]\<close>,
  average the first axis away, reshape to \<open>(img_size, img_size)\<close>.
\<close>

definition sobel_map :: "collaborators \<Rightarrow> nat \<Rightarrow> torch_tensor \<Rightarrow> py_error + torch_tensor" where
  "sobel_map L s t =
     then_do (numpy (cpu t)) (\<lambda>a.
     then_do (mean_axis0 (np_clip (sobel L a) 0 1))
       (\<lambda>m. torch_reshape (torch_Tensor m) [s, s]))"

text \<open>
  Lines 45 to 164: the chain of \<open>if/elif\<close> on the name of the method, from the tensor of
  zeros that the explanation starts as to the raw explanation of the chosen method.
\<close>

definition raw_explanation ::
  "collaborators \<Rightarrow> torch_module \<Rightarrow> string \<Rightarrow> torch_tensor \<Rightarrow> torch_tensor \<Rightarrow> kwargs
     \<Rightarrow> py_error + torch_tensor" where
  "raw_explanation L m ef inputs targets kw =
     (let explanation = zeros_like inputs; s = kwargs_get (img_size kw) 224 in
      if ef = ''GradientShap'' then
        sum_axis1 (GradientShap L m inputs targets (kwargs_get (baseline kw) (zeros_like inputs)))
      else if ef = ''IntegratedGradients'' then
        sum_axis1 (IntegratedGradients L m inputs targets
                     (kwargs_get (baseline kw) (zeros_like inputs)) 10 ''riemann_trapezoid'')
      else if ef = ''InputXGradient'' then
        sum_axis1 (InputXGradient L m inputs targets)
      else if ef = ''Saliency'' then
        sum_axis1 (Saliency L m inputs targets True)
      else if ef = ''Gradient'' then
        sum_axis1 (Saliency L m inputs targets False)
      else if ef = ''Occlusion'' then
        (if sliding_window kw = None then Inl AssertionError
         else case oc_sliding_window kw of
                None \<Rightarrow> Inl KeyError
              | Some win \<Rightarrow> sum_axis1 (Occlusion L m inputs targets win))
      else if ef = ''FeatureAblation'' then
        sum_axis1 (FeatureAblation L m inputs targets)
      else if ef = ''GradCam'' then
        (case gc_layer kw of
           None \<Rightarrow> Inl AssertionError
         | Some layer \<Rightarrow>
             then_do (sum_axis1 (LayerGradCam L m layer inputs targets)) (\<lambda>e.
             then_do (numpy (detach (cpu e)))
               (\<lambda>a. Inr (torch_Tensor (cv2_resize L a (s, s))))))
      else if ef = ''Control Var. Sobel Filter'' then
        (if length (shape explanation) = 4 then
           fold (\<lambda>i acc. then_do acc (\<lambda>e. then_do (sobel_map L s (select0 inputs i)) (setitem0 e i)))
                [0..<hd (shape explanation)] (Inr explanation)
         else sobel_map L s inputs)
      else if ef = ''Control Var. Constant'' then
        (case fill_value kw of
           None \<Rightarrow> Inl AssertionError
         | Some fv \<Rightarrow>
             then_do (tensor_min explanation) (\<lambda>lo.
             then_do (tensor_max explanation) (\<lambda>hi.
               let fill_dict = [(''random'', random_random L),
                                (''uniform'', random_uniform L lo hi),
                                (''black'', lo),
                                (''white'', hi)]
               in then_do (case fv of
                             FillNum v \<Rightarrow> Inr v
                           | FillStr name \<Rightarrow>
                               (case map_of fill_dict (lower name) of
                                  None \<Rightarrow> Inl KeyError
                                | Some v \<Rightarrow> Inr v))
                    (\<lambda>v. Inr (new_full (shape explanation) v)))))
      else Inl KeyError)"

text \<open>Lines 178 to 182: a tensor is returned as a numpy array, anything else as it is.\<close>

definition to_result :: "array \<Rightarrow> py_error + ndarray" where
  "to_result r =
     (case r of
        Tensor t \<Rightarrow> (if requires_grad t then numpy (detach (cpu t)) else numpy (cpu t))
      | Ndarray a \<Rightarrow> Inr a)"

text \<open>
  Lines 166 to 182: the pixel-value transforms, each an \<open>if\<close> statement that updates the
  explanation, and the conversion of the result.
\<close>

definition postprocess :: "collaborators \<Rightarrow> kwargs \<Rightarrow> torch_tensor \<Rightarrow> py_error + ndarray" where
  "postprocess L kw explanation0 =
     (let explanation = (if kwargs_get (abs_kw kw) False then tensor_abs explanation0 else explanation0);
          explanation = (if kwargs_get (pos_only kw) False
                         then masked_zero (\<lambda>v. v < 0) explanation else explanation);
          explanation = (if kwargs_get (neg_only kw) False
                         then masked_zero (\<lambda>v. v > 0) explanation else explanation);
          result = (if kwargs_get (normalize_kw kw) True
                    then normalize_heatmap L explanation else Tensor explanation)
      in to_result result)"

text \<open>
  The transforms in the words of the specification (section 4.2), for one pixel value:
  the absolute value if configured, then negative values set to zero under
  \<open>pos_only\<close>, then positive values set to zero under \<open>neg_only\<close>.  It is compared with
  \<open>postprocess\<close> below.
\<close>

definition spec_pixel_value :: "bool \<Rightarrow> bool \<Rightarrow> bool \<Rightarrow> real \<Rightarrow> real" where
  "spec_pixel_value use_abs pos neg v =
     (let v1 = (if use_abs then \<bar>v\<bar> else v);
          v2 = (if pos then max v1 0 else v1);
          v3 = (if neg then min v2 0 else v2)
      in v3)"

text \<open>
  Lines 31 to 43: arguments that are not tensors are converted; inputs are also reshaped
  to \<open>(-1, nr_channels, img_size, img_size)\<close>, with 3 and 224 as defaults.
\<close>

definition convert_inputs :: "array \<Rightarrow> kwargs \<Rightarrow> py_error + torch_tensor" where
  "convert_inputs inputs kw =
     (case inputs of
        Tensor t \<Rightarrow> Inr t
      | Ndarray a \<Rightarrow>
          then_do (reshape_batch (torch_Tensor a)
                     [kwargs_get (nr_channels kw) 3, kwargs_get (img_size kw) 224,
                      kwargs_get (img_size kw) 224])
            (\<lambda>t. Inr (to_device t (device kw))))"

definition convert_targets :: "array \<Rightarrow> kwargs \<Rightarrow> torch_tensor" where
  "convert_targets targets kw =
     (case targets of Tensor t \<Rightarrow> t | Ndarray a \<Rightarrow> to_device (torch_Tensor a) (device kw))"

text \<open>
  \<open>explain(model, inputs, targets, **kwargs)\<close>.  The result pairs the model after the call
  with the outcome.  The literal \<open>"Gradient"\<close>, the default of the lookup in line 27, is
  the first argument of \<open>explain_from\<close>, so that its role can be stated; \<open>explain\<close> is the
  function of the source.
\<close>

definition explain_from ::
  "string \<Rightarrow> collaborators \<Rightarrow> torch_module \<Rightarrow> array \<Rightarrow> array \<Rightarrow> kwargs
     \<Rightarrow> torch_module \<times> (py_error + ndarray)" where
  "explain_from dflt L m inputs targets kw =
     (if explanation_func kw = None then (m, Inl AssertionError)
      else
        let ef = kwargs_get (explanation_func kw) dflt;
            m' = eval_mode m
        in (m', then_do (convert_inputs inputs kw) (\<lambda>inp.
                  then_do (raw_explanation L m' ef inp (convert_targets targets kw) kw)
                    (postprocess L kw))))"

definition explain ::
  "collaborators \<Rightarrow> torch_module \<Rightarrow> array \<Rightarrow> array \<Rightarrow> kwargs \<Rightarrow> torch_module \<times> (py_error + ndarray)" where
  "explain = explain_from ''Gradient''"

section \<open>Metrics of the evaluation core\<close>

text \<open>
  The tests import the metric classes \<open>TopKIntersection\<close> and \<open>Focus\<close> from
  \<open>quantus.metrics\<close>; that package is not among the source files.  The definitions of
  this section follow the specification (sections 3, 4.1 to 4.4 and 7) instead.
\<close>

subsection \<open>Top-K Intersection\<close>

text \<open>
  Modelled from the spec: \<open>top_k_indices\<close> of section 4.1, whose code (the ranking
  utilities of \<open>quantus.metrics\<close>) is missing.  The indices of the \<open>k\<close> largest values of
  a flattened array, the lower index first among equal values, \<open>k\<close> clamped to the length.
  Sorting the indices by the negated value with a stable sort gives that order.
\<close>

definition top_k_indices :: "real list \<Rightarrow> nat \<Rightarrow> nat list" where
  "top_k_indices vals k =
     take (min k (length vals)) (sort_key (\<lambda>i. - (vals ! i)) [0..<length vals])"

text \<open>
  Modelled from the spec: \<open>mask_on_indices\<close> of section 4.4 (code missing with
  \<open>quantus.metrics\<close>): the flat indices at which the binary mask is 1.
\<close>

definition mask_on_indices :: "real list \<Rightarrow> nat list" where
  "mask_on_indices msk = filter (\<lambda>i. msk ! i = 1) [0..<length msk]"

text \<open>
  Modelled from the spec: the score of Top-K Intersection in the table of section 4.4
  (class \<open>TopKIntersection\<close>, code missing),
  \<open>|top_k_indices(attr, k) \<inter> mask_on_indices| / k\<close>, with \<open>k\<close> clamped to the pixel count
  and the score 0 for an empty mask.  The option \<open>concept_influence\<close> is left out.
\<close>

definition top_k_intersection :: "real list \<Rightarrow> real list \<Rightarrow> nat \<Rightarrow> real" where
  "top_k_intersection attr msk k =
     (let k' = min k (length attr) in
      if mask_on_indices msk = [] then 0
      else real (card (set (top_k_indices attr k') \<inter> set (mask_on_indices msk))) / real k')"

subsection \<open>Focus\<close>

text \<open>
  Modelled from the spec: the data of the Focus metric (sections 3 and 6; the class
  \<open>Focus\<close> and the mosaic fixtures are missing).  A sample of a mosaic batch, as the
  mosaic-preparation collaborator hands it to the core: the mosaic, its target label and
  the four flags that say which quadrants belong to the target class.  The attribution
  map of a mosaic is given by its four quadrants, in the order of the flags.
\<close>

record mosaic_sample =
  mosaic :: ndarray
  target_label :: int
  quadrant_flags :: "bool \<times> bool \<times> bool \<times> bool"

type_synonym mosaic_attribution = "real list \<times> real list \<times> real list \<times> real list"

text \<open>
  Modelled from the spec: the metric instance of section 3 for the class \<open>Focus\<close> (code
  missing): the aggregation toggle and the optional explanation collaborator of the
  configuration, and the accumulated results, which the tests read as \<open>last_results\<close>.
\<close>

record focus_metric =
  return_aggregate :: bool
  explain_func :: "(mosaic_sample list \<Rightarrow> mosaic_attribution list) option"
  last_results :: "real list"

text \<open>Modelled from the spec: a new instance of \<open>Focus\<close> (section 4.3, state \<open>Idle\<close>).\<close>

definition new_focus ::
  "bool \<Rightarrow> (mosaic_sample list \<Rightarrow> mosaic_attribution list) option \<Rightarrow> focus_metric" where
  "new_focus aggregate ef = \<lparr>return_aggregate = aggregate, explain_func = ef, last_results = []\<rparr>"

text \<open>
  Modelled from the spec: the positive attribution mass of a quadrant (section 4.4, row
  Focus; code missing), the sum of its positive values.
\<close>

definition positive_mass :: "real list \<Rightarrow> real" where
  "positive_mass vs = (\<Sum>v\<leftarrow>vs. max v 0)"

text \<open>
  Modelled from the spec: the score of Focus in the table of section 4.4 (code missing):
  the fraction of the total positive attribution mass that falls in the quadrants of the
  target class; 0, the sentinel of section 4.3, when there is no positive mass.
\<close>

definition focus_score :: "mosaic_attribution \<Rightarrow> bool \<times> bool \<times> bool \<times> bool \<Rightarrow> real" where
  "focus_score a p =
     (case (a, p) of
        ((q1, q2, q3, q4), (f1, f2, f3, f4)) \<Rightarrow>
          (let total = positive_mass q1 + positive_mass q2 + positive_mass q3 + positive_mass q4;
               inside = (if f1 then positive_mass q1 else 0) + (if f2 then positive_mass q2 else 0)
                        + (if f3 then positive_mass q3 else 0) + (if f4 then positive_mass q4 else 0)
           in if total = 0 then 0 else inside / total))"

text \<open>
  Modelled from the spec: validation for \<open>Focus.evaluate\<close> (sections 4.2, 4.4 and 7; code
  missing).  An absent or empty mosaic batch is a \<open>ValueError\<close>; attributions that are
  absent come from the explanation collaborator, called once with the whole batch, and
  are a \<open>MissingModel\<close> error without one; attributions whose number differs from the
  number of samples are a \<open>ShapeMismatch\<close>.
\<close>

definition focus_prepare ::
  "focus_metric \<Rightarrow> mosaic_sample list option \<Rightarrow> mosaic_attribution list option
     \<Rightarrow> py_error + (mosaic_sample list \<times> mosaic_attribution list)" where
  "focus_prepare inst mosaics attributions =
     (case mosaics of
        None \<Rightarrow> Inl ValueError
      | Some [] \<Rightarrow> Inl ValueError
      | Some xs \<Rightarrow>
          then_do (case attributions of
                     Some a \<Rightarrow> Inr a
                   | None \<Rightarrow> (case explain_func inst of
                                None \<Rightarrow> Inl MissingModel
                              | Some f \<Rightarrow> Inr (f xs)))
            (\<lambda>a. if length a = length xs then Inr (xs, a) else Inl ShapeMismatch))"

text \<open>
  Modelled from the spec: the per-sample scores of one call, in input order (section
  4.3, step 3; code missing).
\<close>

definition focus_scores :: "mosaic_sample list \<Rightarrow> mosaic_attribution list \<Rightarrow> real list" where
  "focus_scores xs a = map (\<lambda>(x, q). focus_score q (quadrant_flags x)) (zip xs a)"

text \<open>
  Modelled from the spec: \<open>Focus.evaluate\<close>, the operation of section 4.3 (code missing).
  A failed validation leaves the instance as it is; a successful call appends the scores
  of the call to the accumulated results and returns them, or their mean when
  aggregation is requested.
\<close>

definition focus_evaluate ::
  "focus_metric \<Rightarrow> mosaic_sample list option \<Rightarrow> mosaic_attribution list option
     \<Rightarrow> focus_metric \<times> (py_error + real list)" where
  "focus_evaluate inst mosaics attributions =
     (case focus_prepare inst mosaics attributions of
        Inl e \<Rightarrow> (inst, Inl e)
      | Inr (xs, a) \<Rightarrow>
          (let scores = focus_scores xs a in
           (inst\<lparr>last_results := last_results inst @ scores\<rparr>,
            Inr (if return_aggregate inst then [sum_list scores / real (length scores)] else scores))))"

text \<open>
  Mini-batch calls on one instance, in sequence, as the loop of \<open>test_focus\<close> (lines 1552
  to 1574 of the test file) makes them; each call is \<open>focus_evaluate\<close>, and the first
  failing call ends the sequence with its error.
\<close>

fun focus_evaluate_all ::
  "focus_metric \<Rightarrow> (mosaic_sample list option \<times> mosaic_attribution list option) list
     \<Rightarrow> focus_metric \<times> (py_error + unit)" where
  "focus_evaluate_all inst [] = (inst, Inr ())"
| "focus_evaluate_all inst (c # cs) =
     (case focus_evaluate inst (fst c) (snd c) of
        (inst', Inl e) \<Rightarrow> (inst', Inl e)
      | (inst', Inr scores) \<Rightarrow> focus_evaluate_all inst' cs)"

text \<open>
  Notions for the statements about sequences of calls: the samples and the attributions
  that a call carries (none when absent).
\<close>

definition call_samples ::
  "mosaic_sample list option \<times> mosaic_attribution list option \<Rightarrow> mosaic_sample list" where
  "call_samples c = (case fst c of None \<Rightarrow> [] | Some xs \<Rightarrow> xs)"

definition call_attributions ::
  "mosaic_sample list option \<times> mosaic_attribution list option \<Rightarrow> mosaic_attribution list" where
  "call_attributions c = (case snd c of None \<Rightarrow> [] | Some a \<Rightarrow> a)"

text \<open>The scores that a call contributes to the accumulated results: none when it fails.\<close>

definition call_scores ::
  "focus_metric \<Rightarrow> mosaic_sample list option \<times> mosaic_attribution list option \<Rightarrow> real list" where
  "call_scores inst c =
     (case focus_prepare inst (fst c) (snd c) of Inl e \<Rightarrow> [] | Inr (xs, a) \<Rightarrow> focus_scores xs a)"

section \<open>Fixtures\<close>

text \<open>
  Concrete collaborators, models and arguments at which the theorems below are
  evaluated.  The attribution algorithms of the fixture return their inputs as
  attributions, the forward pass returns its argument and tracks gradients whenever the
  gradient mode is on, and the random draws are fixed.
\<close>

text \<open>
  Modelled from the spec: \<open>normalize\<close> of section 4.1, standing in for
  \<open>normalize_heatmap\<close> of \<open>utils\<close>, which is not among the source files:
  \<open>(x - min) / (max - min)\<close>, and the map unchanged when it has no range.
\<close>

definition min_max_normalize :: "torch_tensor \<Rightarrow> array" where
  "min_max_normalize t =
     (case data t of
        [] \<Rightarrow> Tensor t
      | v # vs \<Rightarrow>
          (let lo = fold min vs v; hi = fold max vs v in
           if hi = lo then Tensor t
           else Tensor (t\<lparr>data := map (\<lambda>x. (x - lo) / (hi - lo)) (data t)\<rparr>)))"

definition fixture_collaborators :: collaborators where
  "fixture_collaborators =
     \<lparr>GradientShap = (\<lambda>m x t b. x), IntegratedGradients = (\<lambda>m x t b n s. x),
      InputXGradient = (\<lambda>m x t. x), Saliency = (\<lambda>m x t a. x), Occlusion = (\<lambda>m x t w. x),
      FeatureAblation = (\<lambda>m x t. x), LayerGradCam = (\<lambda>m l x t. x),
      cv2_resize = (\<lambda>a d. a), sobel = (\<lambda>a. a), normalize_heatmap = min_max_normalize,
      random_random = 1 / 2, random_uniform = (\<lambda>a b. a)\<rparr>"

definition fixture_module :: "bool \<Rightarrow> torch_module" where
  "fixture_module mode = \<lparr>training = mode, forward = (\<lambda>g t. t\<lparr>requires_grad := g\<rparr>)\<rparr>"

definition fixture_wrapper :: "bool \<Rightarrow> bool \<Rightarrow> PyTorchModel" where
  "fixture_wrapper mode cf = \<lparr>model = fixture_module mode, channel_first = cf\<rparr>"

definition fixture_targets :: array where
  "fixture_targets =
     Tensor \<lparr>shape = [2], data = [0, 1], requires_grad = False, tensor_device = ''cpu''\<rparr>"

text \<open>A batch of two samples with three channels of one by one pixel.\<close>

definition fixture_inputs :: array where
  "fixture_inputs =
     Tensor \<lparr>shape = [2, 3, 1, 1], data = [1, -2, 3, 4, 5, -6], requires_grad = False,
             tensor_device = ''cpu''\<rparr>"

text \<open>
  The shape that the specification gives the attribution map: the shape of the inputs
  without its channel axis, the second one.
\<close>

definition channel_collapsed :: "nat list \<Rightarrow> nat list" where
  "channel_collapsed sh = take 1 sh @ drop 2 sh"

definition constant_kwargs :: kwargs where
  "constant_kwargs = no_kwargs\<lparr>explanation_func := Some ''Control Var. Constant'',
      fill_value := Some (FillNum 0), normalize_kw := Some False\<rparr>"

text \<open>
  Three samples with two channels of one by one pixel, whose channel sums are -4, 1 and 3,
  explained by the method \<open>"Gradient"\<close> with \<open>pos_only\<close> set.
\<close>

definition fixture_signed_inputs :: array where
  "fixture_signed_inputs =
     Tensor \<lparr>shape = [3, 2, 1, 1], data = [-1, -3, 0, 1, 1, 2], requires_grad = False,
             tensor_device = ''cpu''\<rparr>"

definition fixture_three_targets :: array where
  "fixture_three_targets =
     Tensor \<lparr>shape = [3], data = [0, 1, 0], requires_grad = False, tensor_device = ''cpu''\<rparr>"

definition pos_only_kwargs :: kwargs where
  "pos_only_kwargs = no_kwargs\<lparr>explanation_func := Some ''Gradient'', pos_only := Some True\<rparr>"

text \<open>
  Two mini-batches of one mosaic each, with their attributions: in the first all positive
  mass lies in the only quadrant of the target class, in the second half of it.
\<close>

definition fixture_calls ::
  "(mosaic_sample list option \<times> mosaic_attribution list option) list" where
  "fixture_calls =
     [(Some [\<lparr>mosaic = \<lparr>shape = [1, 2, 2], data = [1, 1, 1, 1]\<rparr>, target_label = 1,
              quadrant_flags = (True, False, False, False)\<rparr>],
       Some [([1], [0], [0], [-1])]),
      (Some [\<lparr>mosaic = \<lparr>shape = [1, 2, 2], data = [1, 1, 1, 1]\<rparr>, target_label = 1,
              quadrant_flags = (False, True, False, False)\<rparr>],
       Some [([1], [1], [0], [0])])]"

section \<open>The model wrapper: theorems\<close>

lemma numpy_cpu_detach: "numpy (cpu (detach t)) = Inr (as_ndarray t)"
  by (simp add: numpy_def cpu_def detach_def as_ndarray_def)

text \<open>
  In evaluation mode \<open>predict\<close> runs the forward pass and converts the prediction.  The
  conversion of line 26 detaches the prediction and moves it to host memory first; the
  one of line 27, taken when the prediction tracks no gradient, does neither and fails for
  a prediction that is on another device.
\<close>

lemma predict_eval_result:
  assumes "\<not> training (model self)"
  shows "predict self ambient x softmax_act kw =
       (self,
        let pred = (if softmax_act then Softmax else id)
                     (forward (model self) (grad_mode_inside (grad_context_of kw) ambient)
                        (to_device (torch_Tensor x) (device kw)))
        in if requires_grad pred \<or> tensor_device pred = ''cpu'' then Inr (as_ndarray pred)
           else Inl TypeError)"
proof -
  have conv: "(if requires_grad p then (self, numpy (cpu (detach p))) else (self, numpy p))
       = (self, if requires_grad p \<or> tensor_device p = ''cpu'' then Inr (as_ndarray p)
                else Inl TypeError)" for p
    by (cases "requires_grad p") (simp_all add: numpy_cpu_detach, simp add: numpy_def)
  show ?thesis
    using assms by (cases softmax_act) (simp_all add: predict_def Let_def conv)
qed


text \<open>The guard of lines 14 and 15: the \<open>AttributeError\<close> is raised exactly in training mode.\<close>

lemma predict_attribute_error:
  "(snd (predict self ambient x softmax_act kw) = Inl AttributeError) = training (model self)"
proof (cases "training (model self)")
  case True
  then show ?thesis by (simp add: predict_def)
next
  case False
  then show ?thesis by (simp add: predict_eval_result Let_def)
qed

text \<open>
  Claim C4 fails on the code.  With the model in evaluation mode, \<open>device="cuda"\<close> and
  \<open>grad=True\<close>, the prediction is computed on the device without gradient, line 27
  applies \<open>.numpy()\<close> to it without \<open>.cpu()\<close>, and \<open>predict\<close> raises a \<open>TypeError\<close>,
  where the claim has an error only in training mode.
\<close>

theorem predict_eval_mode_type_error:
  "\<not> training (model (fixture_wrapper False True))
   \<and> snd (predict (fixture_wrapper False True) True \<lparr>shape = [2], data = [1, 2]\<rparr> False
           (no_kwargs\<lparr>device := Some ''cuda'', grad := Some True\<rparr>)) = Inl TypeError"
  by (simp add: fixture_wrapper_def fixture_module_def predict_def no_kwargs_def grad_context_of_def
        kwargs_get_def to_device_def torch_Tensor_def numpy_def)

text \<open>
  Claim C10, as the code has it.  The context manager of \<open>predict\<close> is
  \<open>torch.no_grad()\<close> exactly when the option \<open>grad\<close> is true.  Otherwise it is
  \<open>suppress()\<close>, which suppresses nothing: the forward pass runs in the gradient mode of
  the caller.  So gradient tracking is on during the forward pass exactly when the
  caller has it on and \<open>grad\<close> is not true; a caller that is itself inside
  \<open>torch.no_grad()\<close> gets a forward pass without gradient tracking under the default
  \<open>grad=False\<close> as well.  In evaluation mode the prediction is the softmax of the output
  of the forward pass when \<open>softmax_act\<close> is true and the output itself when it is
  false, and it is what \<open>predict\<close> returns whenever it returns.
\<close>

theorem predict_grad_context_softmax:
  "(grad_context_of kw = No_grad) = (grad kw = Some True)
   \<and> (grad_context_of kw = Suppress) = (grad kw \<noteq> Some True)
   \<and> grad_mode_inside Suppress ambient = ambient
   \<and> grad_mode_inside (grad_context_of kw) ambient = (ambient \<and> grad kw \<noteq> Some True)
   \<and> (\<not> training (model self) \<longrightarrow>
        snd (predict self ambient x softmax_act kw) =
          (let pred = (if softmax_act then Softmax else id)
                        (forward (model self) (if grad kw = Some True then False else ambient)
                           (to_device (torch_Tensor x) (device kw)))
           in if requires_grad pred \<or> tensor_device pred = ''cpu'' then Inr (as_ndarray pred)
              else Inl TypeError))"
proof -
  have ctx: "(grad_context_of kw = No_grad) = (grad kw = Some True)"
    by (cases "grad kw") (auto simp: grad_context_of_def kwargs_get_def)
  have sup: "(grad_context_of kw = Suppress) = (grad kw \<noteq> Some True)"
    using ctx by (cases "grad_context_of kw") auto
  have mode: "grad_mode_inside (grad_context_of kw) ambient
                = (if grad kw = Some True then False else ambient)"
    using ctx by (cases "grad_context_of kw") auto
  show ?thesis
    using ctx sup mode by (simp add: predict_eval_result)
qed

theorem predict_grad_context_softmax_witness:
  "snd (predict (fixture_wrapper False True) True \<lparr>shape = [2], data = [1, 2]\<rparr> True no_kwargs)
     = Inr (as_ndarray (Softmax \<lparr>shape = [2], data = [1, 2], requires_grad = True,
                                 tensor_device = ''cpu''\<rparr>))
   \<and> snd (predict (fixture_wrapper False True) True \<lparr>shape = [2], data = [1, 2]\<rparr> False
            (no_kwargs\<lparr>grad := Some True\<rparr>))
     = Inr \<lparr>shape = [2], data = [1, 2]\<rparr>"
  using predict_grad_context_softmax [of no_kwargs True "fixture_wrapper False True"
          "\<lparr>shape = [2], data = [1, 2]\<rparr>" True]
    predict_grad_context_softmax [of "no_kwargs\<lparr>grad := Some True\<rparr>" True "fixture_wrapper False True"
          "\<lparr>shape = [2], data = [1, 2]\<rparr>" False]
  by (simp add: fixture_wrapper_def fixture_module_def no_kwargs_def torch_Tensor_def to_device_def
        Softmax_def as_ndarray_def Let_def)

text \<open>
  Claim C10 as stated fails: when the caller has gradient tracking off, the default call
  (no \<open>grad\<close> option, so \<open>grad=False\<close>) runs the forward pass without gradient tracking
  although its context manager is \<open>suppress()\<close> and not \<open>torch.no_grad()\<close>.  The effect is
  visible for a prediction on the device \<open>cuda\<close>: it tracks no gradient, so the call ends
  in the \<open>TypeError\<close> of line 27, as the call with \<open>grad=True\<close> does, while the same call
  from a caller with gradient tracking on returns the prediction.
\<close>

theorem predict_default_grad_counterexample:
  "grad no_kwargs = None
   \<and> grad_context_of no_kwargs = Suppress
   \<and> grad_mode_inside (grad_context_of no_kwargs) False = False
   \<and> snd (predict (fixture_wrapper False True) False \<lparr>shape = [2], data = [1, 2]\<rparr> False
            (no_kwargs\<lparr>device := Some ''cuda''\<rparr>)) = Inl TypeError
   \<and> snd (predict (fixture_wrapper False True) False \<lparr>shape = [2], data = [1, 2]\<rparr> False
            (no_kwargs\<lparr>device := Some ''cuda'', grad := Some True\<rparr>)) = Inl TypeError
   \<and> snd (predict (fixture_wrapper False True) True \<lparr>shape = [2], data = [1, 2]\<rparr> False
            (no_kwargs\<lparr>device := Some ''cuda''\<rparr>)) = Inr \<lparr>shape = [2], data = [1, 2]\<rparr>"
  by (simp add: fixture_wrapper_def fixture_module_def predict_def no_kwargs_def grad_context_of_def
        kwargs_get_def to_device_def torch_Tensor_def numpy_def cpu_def detach_def as_ndarray_def)

text \<open>
  Claim C9, as the code has it.  The reshape of line 30 comes before the test of
  \<open>channel_first\<close> and raises a \<open>ValueError\<close> of its own when the input does not hold
  \<open>nr_channels * img_size * img_size\<close> elements.  So \<open>shape_input\<close> returns the input
  reshaped to \<open>(1, nr_channels, img_size, img_size)\<close> when \<open>channel_first\<close> is true and
  the element count fits, and raises a \<open>ValueError\<close> in every other case, in particular
  whenever \<open>channel_first\<close> is false.
\<close>

theorem shape_input_cases:
  "shape_input self x img_sz nr_ch =
     (if length (data x) = nr_ch * img_sz * img_sz \<and> channel_first self
      then Inr \<lparr>shape = [1, nr_ch, img_sz, img_sz], data = data x\<rparr>
      else Inl ValueError)"
  by (auto simp: shape_input_def reshape_def)

theorem shape_input_cases_witness:
  "shape_input (fixture_wrapper False True) \<lparr>shape = [4], data = [1, 2, 3, 4]\<rparr> 2 1
     = Inr \<lparr>shape = [1, 1, 2, 2], data = [1, 2, 3, 4]\<rparr>
   \<and> shape_input (fixture_wrapper False False) \<lparr>shape = [4], data = [1, 2, 3, 4]\<rparr> 2 1
     = Inl ValueError"
  using shape_input_cases [of "fixture_wrapper False True" "\<lparr>shape = [4], data = [1, 2, 3, 4]\<rparr>" 2 1]
    shape_input_cases [of "fixture_wrapper False False" "\<lparr>shape = [4], data = [1, 2, 3, 4]\<rparr>" 2 1]
  by (simp add: fixture_wrapper_def)

text \<open>
  Claim C9 as stated fails: with \<open>channel_first\<close> true, an input of three elements and
  \<open>img_size = nr_channels = 1\<close>, the call raises instead of returning a reshaped input.
\<close>

theorem shape_input_counterexample:
  "channel_first (fixture_wrapper False True)
   \<and> shape_input (fixture_wrapper False True) \<lparr>shape = [3], data = [1, 2, 3]\<rparr> 1 1
       = Inl ValueError"
  by (simp add: shape_input_def reshape_def fixture_wrapper_def)

section \<open>The explanation function: theorems\<close>

subsection \<open>The assertion on \<open>explanation_func\<close> and the mode of the model\<close>

lemma explain_from_default_irrelevant:
  "explain_from d L m inputs targets kw = explain_from d' L m inputs targets kw"
  by (cases "explanation_func kw") (simp_all add: explain_from_def kwargs_get_def)


text \<open>
  Claim C8.  A call of \<open>explain\<close> without the key \<open>"explanation_func"\<close> raises an
  \<open>AssertionError\<close> and leaves the model as it was (nothing has been computed, not even
  \<open>model.eval()\<close>).  The default \<open>"Gradient"\<close> of the lookup in line 27 is never used:
  whatever default is put in its place, \<open>explain\<close> behaves the same.
\<close>

theorem explain_requires_explanation_func:
  "(explanation_func kw = None \<longrightarrow> explain L m inputs targets kw = (m, Inl AssertionError))
   \<and> (\<forall>d. explain_from d L m inputs targets kw = explain L m inputs targets kw)"
  unfolding explain_def
  using explain_from_default_irrelevant [of _ L m inputs targets kw "''Gradient''"]
  by (simp add: explain_from_def)

theorem explain_requires_explanation_func_witness:
  "explain fixture_collaborators (fixture_module True) fixture_inputs fixture_targets no_kwargs
     = (fixture_module True, Inl AssertionError)"
  using explain_requires_explanation_func [of no_kwargs fixture_collaborators "fixture_module True"
          fixture_inputs fixture_targets]
  by (simp add: no_kwargs_def)

text \<open>
  The control variant \<open>"Control Var. Constant"\<close> at the fixture: the explanation has the
  shape of the inputs, channel axis included, and the model ends in evaluation mode
  whatever mode it was in.
\<close>

lemma explain_constant_value:
  "explain fixture_collaborators (fixture_module mode) fixture_inputs fixture_targets constant_kwargs
     = (fixture_module False, Inr \<lparr>shape = [2, 3, 1, 1], data = [0, 0, 0, 0, 0, 0]\<rparr>)"
  by (simp add: explain_def explain_from_def no_kwargs_def kwargs_get_def eval_mode_def
        convert_inputs_def convert_targets_def then_do_def raw_explanation_def zeros_like_def
        tensor_min_def tensor_max_def new_full_def postprocess_def to_result_def numpy_def cpu_def
        as_ndarray_def fixture_collaborators_def fixture_module_def fixture_inputs_def
        fixture_targets_def constant_kwargs_def eval_nat_numeral)




subsection \<open>The shape of the explanation\<close>

lemma to_result_Tensor: "to_result (Tensor t) = Inr (as_ndarray t)"
  by (simp add: to_result_def numpy_def cpu_def detach_def as_ndarray_def)

lemma postprocess_shape:
  "normalize_kw kw = Some False \<Longrightarrow> map_sum id shape (postprocess L kw e) = Inr (shape e)"
  by (simp add: postprocess_def Let_def kwargs_get_def to_result_Tensor as_ndarray_def
        tensor_abs_def masked_zero_def)

text \<open>
  The branches that end in \<open>.sum(axis=1)\<close> collapse the channel axis, here for
  \<open>"Gradient"\<close>: when captum returns attributions of the shape of the inputs, the
  explanation has the shape of the inputs without the channel axis.
\<close>

lemma explain_gradient_shape:
  assumes "explanation_func kw = Some ''Gradient''" and "normalize_kw kw = Some False"
    and "shape (Saliency L (eval_mode m) t (convert_targets targets kw) False) = shape t"
    and "shape t = b # c # rest"
  shows "map_sum id shape (snd (explain L m (Tensor t) targets kw))
           = Inr (channel_collapsed (shape t))"
proof -
  let ?g = "Saliency L (eval_mode m) t (convert_targets targets kw) False"
  have raw: "raw_explanation L (eval_mode m) ''Gradient'' t (convert_targets targets kw) kw
               = sum_axis1 ?g"
    by (simp add: raw_explanation_def Let_def)
  have "shape ?g = b # c # rest"
    using assms(3,4) by simp
  then obtain e where e: "sum_axis1 ?g = Inr e" and sh: "shape e = channel_collapsed (shape t)"
    using assms(3) by (simp add: sum_axis1_def channel_collapsed_def Let_def)
  show ?thesis
    using assms(1,2) raw e sh
    by (simp add: explain_def explain_from_def kwargs_get_def convert_inputs_def then_do_def
          postprocess_shape Let_def)
qed

text \<open>
  The branch \<open>"Control Var. Constant"\<close> fills a tensor of \<open>explanation.shape\<close>, the shape of
  the zeros made from the inputs, and sums no axis away.
\<close>

lemma explain_constant_shape:
  assumes "explanation_func kw = Some ''Control Var. Constant''"
    and "normalize_kw kw = Some False"
    and "fill_value kw = Some (FillNum v)" and "data t \<noteq> []"
  shows "map_sum id shape (snd (explain L m (Tensor t) targets kw)) = Inr (shape t)"
proof -
  obtain x xs where d: "data t = x # xs"
    using assms(4) by (cases "data t") auto
  have raw: "raw_explanation L (eval_mode m) ''Control Var. Constant'' t
               (convert_targets targets kw) kw = Inr (new_full (shape t) v)"
    using assms(3) d
    by (simp add: raw_explanation_def Let_def zeros_like_def tensor_min_def tensor_max_def
          then_do_def)
  show ?thesis
    using assms(1,2) raw
    by (simp add: explain_def explain_from_def kwargs_get_def convert_inputs_def then_do_def
          postprocess_shape Let_def new_full_def)
qed

text \<open>
  The branch \<open>"Control Var. Sobel Filter"\<close> writes each filtered sample into its slot of
  the zeros made from the inputs, so that the channel axis stays as well.
\<close>

lemma explain_sobel_value:
  "snd (explain fixture_collaborators (fixture_module False) fixture_inputs fixture_targets
          (no_kwargs\<lparr>explanation_func := Some ''Control Var. Sobel Filter'', img_size := Some 1,
             normalize_kw := Some False\<rparr>))
     = Inr \<lparr>shape = [2, 3, 1, 1], data = [2 / 3, 2 / 3, 2 / 3, 2 / 3, 2 / 3, 2 / 3]\<rparr>"
  by (simp add: explain_def explain_from_def no_kwargs_def kwargs_get_def eval_mode_def
        convert_inputs_def convert_targets_def then_do_def raw_explanation_def zeros_like_def
        sobel_map_def select0_def mean_axis0_def np_clip_def torch_reshape_def
        torch_Tensor_def setitem0_def postprocess_def to_result_def numpy_def cpu_def as_ndarray_def
        fixture_collaborators_def fixture_module_def fixture_inputs_def fixture_targets_def
        eval_nat_numeral upt_rec)

text \<open>
  Claim C1 fails on the code.  For a batch of two samples with three channels of one by
  one pixel and the method \<open>"Control Var. Constant"\<close>, \<open>explain\<close> returns an array of
  shape \<open>(2, 3, 1, 1)\<close>, the shape of the inputs, where the claim requires the shape
  \<open>(2, 1, 1)\<close> with the channel axis collapsed.
\<close>

theorem explain_constant_keeps_channel_axis:
  "map_sum id shape (snd (explain fixture_collaborators (fixture_module False) fixture_inputs
        fixture_targets constant_kwargs)) = Inr [2, 3, 1, 1]
   \<and> channel_collapsed [2, 3, 1, 1] = [2, 1, 1]
   \<and> map_sum id shape (snd (explain fixture_collaborators (fixture_module False) fixture_inputs
        fixture_targets constant_kwargs)) \<noteq> Inr (channel_collapsed [2, 3, 1, 1])"
  by (simp add: explain_constant_value channel_collapsed_def)

subsection \<open>The order of the pixel-value transforms\<close>

lemma masked_zero_neg: "masked_zero (\<lambda>v. v < 0) t = t\<lparr>data := map (\<lambda>v. max v 0) (data t)\<rparr>"
  by (simp add: masked_zero_def max_def not_less cong: map_cong)

lemma masked_zero_pos: "masked_zero (\<lambda>v. 0 < v) t = t\<lparr>data := map (\<lambda>v. min v 0) (data t)\<rparr>"
  by (simp add: masked_zero_def min_def not_less cong: map_cong)

lemma abs_step_data:
  "data ((if a then tensor_abs else id) e) = map (\<lambda>v. if a then \<bar>v\<bar> else v) (data e)"
  by (simp add: tensor_abs_def)

lemma pos_step_data:
  "data ((if p then masked_zero (\<lambda>v. v < 0) else id) t)
     = map (\<lambda>v. if p then max v 0 else v) (data t)"
  by (simp add: masked_zero_neg)

lemma neg_step_data:
  "data ((if n then masked_zero (\<lambda>v. 0 < v) else id) t)
     = map (\<lambda>v. if n then min v 0 else v) (data t)"
  by (simp add: masked_zero_pos)

lemma steps_keep_rest:
  "(if n then masked_zero (\<lambda>v. 0 < v) else id)
     ((if p then masked_zero (\<lambda>v. v < 0) else id) ((if a then tensor_abs else id) e))
   = e\<lparr>data := data ((if n then masked_zero (\<lambda>v. 0 < v) else id)
     ((if p then masked_zero (\<lambda>v. v < 0) else id) ((if a then tensor_abs else id) e)))\<rparr>"
  by (simp add: masked_zero_def tensor_abs_def)

lemma steps_pointwise:
  "(if n then masked_zero (\<lambda>v. 0 < v) else id)
     ((if p then masked_zero (\<lambda>v. v < 0) else id) ((if a then tensor_abs else id) e))
   = e\<lparr>data := map (spec_pixel_value a p n) (data e)\<rparr>"
proof -
  have "data ((if n then masked_zero (\<lambda>v. 0 < v) else id)
     ((if p then masked_zero (\<lambda>v. v < 0) else id) ((if a then tensor_abs else id) e)))
     = map (spec_pixel_value a p n) (data e)"
    unfolding neg_step_data pos_step_data abs_step_data
    by (simp add: spec_pixel_value_def Let_def o_def)
  then show ?thesis
    using steps_keep_rest [of n p a e] by simp
qed

lemma spec_pixel_value_pos: "0 \<le> spec_pixel_value a True n v"
  by (simp add: spec_pixel_value_def Let_def min_def max_def)

lemma spec_pixel_value_neg: "spec_pixel_value a p True v \<le> 0"
  by (simp add: spec_pixel_value_def Let_def min_def max_def)

lemma postprocess_order:
  "postprocess L kw e =
     to_result ((if kwargs_get (normalize_kw kw) True then normalize_heatmap L else Tensor)
       ((if kwargs_get (neg_only kw) False then masked_zero (\<lambda>v. 0 < v) else id)
         ((if kwargs_get (pos_only kw) False then masked_zero (\<lambda>v. v < 0) else id)
           ((if kwargs_get (abs_kw kw) False then tensor_abs else id) e))))"
  by (simp add: postprocess_def Let_def)

lemma explain_postprocess:
  assumes "explanation_func kw = Some ef"
    and "convert_inputs inputs kw = Inr inp"
    and "raw_explanation L (eval_mode m) ef inp (convert_targets targets kw) kw = Inr e"
  shows "snd (explain L m inputs targets kw) = postprocess L kw e"
  using assms by (simp add: explain_def explain_from_def kwargs_get_def then_do_def Let_def)

text \<open>
  Claim C5.  Whenever \<open>explain\<close> has computed the raw explanation \<open>e\<close> of the chosen
  method, its result is obtained from \<open>e\<close> by the transforms in this order: the absolute
  value (if \<open>abs\<close> is set), then the zeroing of negative values (if \<open>pos_only\<close>), then the
  zeroing of positive values (if \<open>neg_only\<close>), then the normalization (unless \<open>normalize\<close>
  is switched off).  The tensor handed to the normalization is the clipped one: each of
  its values is the value that the specification's sequence gives, none is negative under
  \<open>pos_only\<close> and none is positive under \<open>neg_only\<close>.
\<close>

theorem pixel_transforms_order:
  assumes "explanation_func kw = Some ef"
    and "convert_inputs inputs kw = Inr inp"
    and "raw_explanation L (eval_mode m) ef inp (convert_targets targets kw) kw = Inr e"
  shows "snd (explain L m inputs targets kw) =
     to_result ((if kwargs_get (normalize_kw kw) True then normalize_heatmap L else Tensor)
       ((if kwargs_get (neg_only kw) False then masked_zero (\<lambda>v. 0 < v) else id)
         ((if kwargs_get (pos_only kw) False then masked_zero (\<lambda>v. v < 0) else id)
           ((if kwargs_get (abs_kw kw) False then tensor_abs else id) e))))
   \<and> (if kwargs_get (neg_only kw) False then masked_zero (\<lambda>v. 0 < v) else id)
         ((if kwargs_get (pos_only kw) False then masked_zero (\<lambda>v. v < 0) else id)
           ((if kwargs_get (abs_kw kw) False then tensor_abs else id) e))
       = e\<lparr>data := map (spec_pixel_value (kwargs_get (abs_kw kw) False)
                 (kwargs_get (pos_only kw) False) (kwargs_get (neg_only kw) False)) (data e)\<rparr>
   \<and> (kwargs_get (pos_only kw) False \<longrightarrow>
        list_all (\<lambda>v. 0 \<le> v) (map (spec_pixel_value (kwargs_get (abs_kw kw) False)
                 (kwargs_get (pos_only kw) False) (kwargs_get (neg_only kw) False)) (data e)))
   \<and> (kwargs_get (neg_only kw) False \<longrightarrow>
        list_all (\<lambda>v. v \<le> 0) (map (spec_pixel_value (kwargs_get (abs_kw kw) False)
                 (kwargs_get (pos_only kw) False) (kwargs_get (neg_only kw) False)) (data e)))"
proof -
  have order: "snd (explain L m inputs targets kw) =
     to_result ((if kwargs_get (normalize_kw kw) True then normalize_heatmap L else Tensor)
       ((if kwargs_get (neg_only kw) False then masked_zero (\<lambda>v. 0 < v) else id)
         ((if kwargs_get (pos_only kw) False then masked_zero (\<lambda>v. v < 0) else id)
           ((if kwargs_get (abs_kw kw) False then tensor_abs else id) e))))"
    using explain_postprocess [OF assms] postprocess_order [of L kw e] by simp
  have pos: "list_all (\<lambda>v. 0 \<le> v) (map (spec_pixel_value a True n) vs)" for a n vs
    by (simp add: list_all_iff spec_pixel_value_pos)
  have neg: "list_all (\<lambda>v. v \<le> 0) (map (spec_pixel_value a p True) vs)" for a p vs
    by (simp add: list_all_iff spec_pixel_value_neg)
  show ?thesis
    using order steps_pointwise pos neg by simp
qed

text \<open>
  At the fixture the channel sums -4, 1, 3 are clipped to 0, 1, 3 and then normalized to
  0, 1/3, 1; normalizing the unclipped sums would give 0, 5/7, 1.
\<close>

theorem pixel_transforms_order_witness:
  "snd (explain fixture_collaborators (fixture_module False) fixture_signed_inputs
          fixture_three_targets pos_only_kwargs)
     = Inr \<lparr>shape = [3, 1, 1], data = [0, 1 / 3, 1]\<rparr>"
proof -
  let ?inp = "\<lparr>shape = [3, 2, 1, 1], data = [-1, -3, 0, 1, 1, 2], requires_grad = False,
               tensor_device = ''cpu''\<rparr>"
  let ?e = "\<lparr>shape = [3, 1, 1], data = [-4, 1, 3], requires_grad = False,
             tensor_device = ''cpu''\<rparr>"
  have ef: "explanation_func pos_only_kwargs = Some ''Gradient''"
    by (simp add: pos_only_kwargs_def no_kwargs_def)
  have inp: "convert_inputs fixture_signed_inputs pos_only_kwargs = Inr ?inp"
    by (simp add: convert_inputs_def fixture_signed_inputs_def)
  have raw: "raw_explanation fixture_collaborators (eval_mode (fixture_module False)) ''Gradient''
               ?inp (convert_targets fixture_three_targets pos_only_kwargs) pos_only_kwargs
             = Inr ?e"
    by (simp add: raw_explanation_def Let_def fixture_collaborators_def sum_axis1_def
          eval_nat_numeral upt_rec)
  show ?thesis
    using pixel_transforms_order [OF ef inp raw]
    by (simp add: pos_only_kwargs_def no_kwargs_def kwargs_get_def fixture_collaborators_def
          min_max_normalize_def masked_zero_def to_result_Tensor as_ndarray_def)
qed

section \<open>Top-K Intersection: theorems\<close>

lemma top_k_indices_all: "set (top_k_indices vals (length vals)) = {0..<length vals}"
  by (simp add: top_k_indices_def)

lemma mask_on_indices_bound: "set (mask_on_indices msk) \<subseteq> {0..<length msk}"
  by (auto simp: mask_on_indices_def)

lemma distinct_mask_on_indices: "distinct (mask_on_indices msk)"
  by (simp add: mask_on_indices_def)

text \<open>With \<open>k\<close> the pixel count, the top-k indices are all indices, so the intersection is the mask.\<close>

lemma card_full_intersection:
  assumes "length msk = length attr"
  shows "card (set (top_k_indices attr (length attr)) \<inter> set (mask_on_indices msk))
           = length (mask_on_indices msk)"
proof -
  have "set (top_k_indices attr (length attr)) \<inter> set (mask_on_indices msk)
          = set (mask_on_indices msk)"
    using mask_on_indices_bound [of msk] assms by (auto simp: top_k_indices_all)
  then show ?thesis
    by (simp add: distinct_card distinct_mask_on_indices)
qed

lemma length_mask_on_indices_le: "length (mask_on_indices msk) \<le> length msk"
  using length_filter_le [of "\<lambda>i. msk ! i = 1" "[0..<length msk]"]
  by (simp add: mask_on_indices_def)

lemma length_filter_eq_all: "(length (filter P xs) = length xs) = (\<forall>x\<in>set xs. P x)"
proof (induction xs)
  case Nil
  then show ?case by simp
next
  case (Cons x xs)
  have "length (filter P xs) \<noteq> Suc (length xs)"
    using length_filter_le [of P xs] by linarith
  with Cons show ?case by simp
qed

lemma mask_on_indices_full:
  "(length (mask_on_indices msk) = length msk) = (\<forall>i<length msk. msk ! i = 1)"
proof -
  have "(length (filter (\<lambda>i. msk ! i = 1) [0..<length msk]) = length [0..<length msk])
          = (\<forall>i\<in>set [0..<length msk]. msk ! i = 1)"
    by (rule length_filter_eq_all)
  then show ?thesis by (auto simp: mask_on_indices_def)
qed

text \<open>
  Claim C2, as the definition of section 4.4 has it.  For a mask of the size of the
  attribution map with at least one pixel on, Top-K Intersection with \<open>k\<close> the pixel count
  is the density of the mask, the number of its pixels that are on divided by the pixel
  count; it is 1 exactly when every pixel of the mask is on.
\<close>

theorem top_k_intersection_full_k:
  assumes "length msk = length attr" and "mask_on_indices msk \<noteq> []"
  shows "top_k_intersection attr msk (length attr)
           = real (length (mask_on_indices msk)) / real (length attr)
         \<and> (top_k_intersection attr msk (length attr) = 1) = (\<forall>i<length msk. msk ! i = 1)"
proof -
  have score: "top_k_intersection attr msk (length attr)
           = real (length (mask_on_indices msk)) / real (length attr)"
    using assms by (simp add: top_k_intersection_def card_full_intersection)
  have pos: "0 < length attr"
    using assms length_mask_on_indices_le [of msk] by (cases attr) auto
  have "(real (length (mask_on_indices msk)) / real (length attr) = 1)
          = (length (mask_on_indices msk) = length msk)"
    using pos assms(1) by auto
  then show ?thesis
    using score mask_on_indices_full [of msk] by simp
qed

theorem top_k_intersection_full_k_witness:
  "top_k_intersection [3, 1, 2] [1, 1, 0] 3 = 2 / 3 \<and> top_k_intersection [3, 1, 2] [1, 1, 1] 3 = 1"
proof -
  have on2: "mask_on_indices [1, 1, 0] = [0, 1]"
    by (simp add: mask_on_indices_def upt_rec)
  have on3: "mask_on_indices [1, 1, 1] = [0, 1, 2]"
    by (simp add: mask_on_indices_def upt_rec)
  show ?thesis
    using top_k_intersection_full_k [of "[1, 1, 0]" "[3, 1, 2]"]
      top_k_intersection_full_k [of "[1, 1, 1]" "[3, 1, 2]"] on2 on3
    by (simp add: numeral_3_eq_3)
qed

text \<open>
  Claim C2 as stated fails: for two pixels, the mask on at the first only and \<open>k = 2\<close>,
  the pixel count, the score is one half and not 1.
\<close>

theorem top_k_intersection_full_k_counterexample:
  "mask_on_indices [1, 0] \<noteq> []
   \<and> top_k_intersection [2, 1] [1, 0] (length [2, 1 :: real]) = 1 / 2"
proof -
  have on: "mask_on_indices [1, 0] = [0]"
    by (simp add: mask_on_indices_def upt_rec)
  show ?thesis
    using card_full_intersection [of "[1, 0]" "[2, 1]"] on by (simp add: top_k_intersection_def)
qed

section \<open>Focus: theorems\<close>

text \<open>
  Claim C6.  A call of the Focus metric whose mosaic batch is absent or empty fails with
  a \<open>ValueError\<close>: it returns no score, and the instance is as it was.
\<close>

theorem focus_empty_batch_error:
  "mosaics = None \<or> mosaics = Some [] \<Longrightarrow>
     focus_evaluate inst mosaics attributions = (inst, Inl ValueError)"
  by (auto simp: focus_evaluate_def focus_prepare_def)

theorem focus_empty_batch_error_witness:
  "focus_evaluate (new_focus False None) None None = (new_focus False None, Inl ValueError)
   \<and> focus_evaluate (new_focus False None) (Some []) (Some [])
       = (new_focus False None, Inl ValueError)"
  using focus_empty_batch_error [of None "new_focus False None" None]
    focus_empty_batch_error [of "Some []" "new_focus False None" "Some []"]
  by simp

lemma focus_prepare_config:
  "focus_prepare (inst\<lparr>last_results := r\<rparr>) ms a = focus_prepare inst ms a"
  by (simp add: focus_prepare_def split: option.splits list.splits)

lemma call_scores_config: "call_scores (inst\<lparr>last_results := r\<rparr>) c = call_scores inst c"
  by (simp add: call_scores_def focus_prepare_config)

text \<open>A call, failed or not, extends the accumulated results by the scores it contributes.\<close>

lemma focus_evaluate_state:
  "fst (focus_evaluate inst ms a)
     = inst\<lparr>last_results := last_results inst @ call_scores inst (ms, a)\<rparr>"
  by (simp add: focus_evaluate_def call_scores_def Let_def split: sum.splits prod.splits)

lemma focus_evaluate_ok:
  "(\<exists>s. snd (focus_evaluate inst ms a) = Inr s) = (\<exists>v. focus_prepare inst ms a = Inr v)"
  by (auto simp: focus_evaluate_def Let_def split: sum.splits prod.splits)

lemma focus_prepare_lengths:
  "focus_prepare inst ms a = Inr (xs, q) \<Longrightarrow> ms = Some xs \<and> xs \<noteq> [] \<and> length q = length xs"
  by (auto simp: focus_prepare_def then_do_def
        split: option.splits list.splits sum.splits if_splits)

lemma length_call_scores_ok:
  assumes "focus_prepare inst ms a = Inr v"
  shows "length (call_scores inst (ms, a)) = length (call_samples (ms, a))"
proof -
  obtain xs q where v: "v = (xs, q)" by (cases v)
  then show ?thesis
    using focus_prepare_lengths [of inst ms a xs q] assms
    by (simp add: call_scores_def call_samples_def focus_scores_def)
qed

lemma focus_evaluate_all_grows:
  "\<exists>ys. last_results (fst (focus_evaluate_all inst cs)) = last_results inst @ ys"
proof (induction cs arbitrary: inst)
  case Nil
  then show ?case by simp
next
  case (Cons c cs)
  obtain mid r where ev: "focus_evaluate inst (fst c) (snd c) = (mid, r)"
    by (cases "focus_evaluate inst (fst c) (snd c)")
  have st: "last_results mid = last_results inst @ call_scores inst c"
    using focus_evaluate_state [of inst "fst c" "snd c"] ev by simp
  show ?case
  proof (cases r)
    case (Inl e)
    then show ?thesis using ev st by simp
  next
    case (Inr s)
    obtain ys where "last_results (fst (focus_evaluate_all mid cs)) = last_results mid @ ys"
      using Cons.IH [of mid] by blast
    then show ?thesis using ev st Inr by simp
  qed
qed

lemma focus_evaluate_all_step:
  assumes "focus_evaluate_all inst (c # cs) = (inst', Inr ())"
  shows "focus_evaluate_all (inst\<lparr>last_results := last_results inst @ call_scores inst c\<rparr>) cs
           = (inst', Inr ())
         \<and> length (call_scores inst c) = length (call_samples c)"
proof -
  obtain mid r where ev: "focus_evaluate inst (fst c) (snd c) = (mid, r)"
    by (cases "focus_evaluate inst (fst c) (snd c)")
  have st: "mid = inst\<lparr>last_results := last_results inst @ call_scores inst c\<rparr>"
    using focus_evaluate_state [of inst "fst c" "snd c"] ev by simp
  show ?thesis
  proof (cases r)
    case (Inl e)
    then show ?thesis using ev assms by simp
  next
    case (Inr s)
    then have rest: "focus_evaluate_all mid cs = (inst', Inr ())"
      using ev assms by simp
    have "\<exists>v. focus_prepare inst (fst c) (snd c) = Inr v"
      using focus_evaluate_ok [of inst "fst c" "snd c"] ev Inr by simp
    then have "length (call_scores inst c) = length (call_samples c)"
      using length_call_scores_ok [of inst "fst c" "snd c"] by auto
    then show ?thesis using rest st by simp
  qed
qed

lemma focus_evaluate_all_state:
  "focus_evaluate_all inst cs = (inst', Inr ()) \<Longrightarrow>
     inst' = inst\<lparr>last_results := last_results inst @ concat (map (call_scores inst) cs)\<rparr>"
proof (induction cs arbitrary: inst)
  case Nil
  then show ?case by simp
next
  case (Cons c cs)
  show ?case
    using Cons.IH [of "inst\<lparr>last_results := last_results inst @ call_scores inst c\<rparr>"]
      focus_evaluate_all_step [OF Cons.prems]
    by (simp add: call_scores_config)
qed

lemma focus_evaluate_all_count:
  "focus_evaluate_all inst cs = (inst', Inr ()) \<Longrightarrow>
     length (concat (map (call_scores inst) cs)) = length (concat (map call_samples cs))"
proof (induction cs arbitrary: inst)
  case Nil
  then show ?case by simp
next
  case (Cons c cs)
  show ?case
    using Cons.IH [of "inst\<lparr>last_results := last_results inst @ call_scores inst c\<rparr>"]
      focus_evaluate_all_step [OF Cons.prems]
    by (simp add: call_scores_config)
qed

lemma call_scores_supplied:
  "focus_prepare inst (fst c) (snd c) = Inr v \<Longrightarrow> snd c = Some a \<Longrightarrow>
     call_scores inst c = focus_scores (call_samples c) (call_attributions c)
     \<and> length (call_attributions c) = length (call_samples c)"
  by (auto simp: call_scores_def call_samples_def call_attributions_def focus_prepare_def
        then_do_def split: option.splits list.splits if_splits)

lemma focus_scores_append:
  "length xs = length a \<Longrightarrow>
     focus_scores (xs @ ys) (a @ b) = focus_scores xs a @ focus_scores ys b"
  by (simp add: focus_scores_def)

lemma focus_evaluate_all_supplied:
  "focus_evaluate_all inst cs = (inst', Inr ()) \<Longrightarrow> list_all (\<lambda>c. snd c \<noteq> None) cs \<Longrightarrow>
     concat (map (call_scores inst) cs)
       = focus_scores (concat (map call_samples cs)) (concat (map call_attributions cs))"
proof (induction cs arbitrary: inst)
  case Nil
  then show ?case by (simp add: focus_scores_def)
next
  case (Cons c cs)
  obtain a where a: "snd c = Some a"
    using Cons.prems(2) by auto
  obtain mid r where ev: "focus_evaluate inst (fst c) (snd c) = (mid, r)"
    by (cases "focus_evaluate inst (fst c) (snd c)")
  have "\<exists>s. r = Inr s"
    using ev Cons.prems(1) by (cases r) auto
  then have "\<exists>v. focus_prepare inst (fst c) (snd c) = Inr v"
    using focus_evaluate_ok [of inst "fst c" "snd c"] ev by simp
  then have here: "call_scores inst c = focus_scores (call_samples c) (call_attributions c)
      \<and> length (call_attributions c) = length (call_samples c)"
    using call_scores_supplied a by blast
  have rest: "concat (map (call_scores inst) cs)
       = focus_scores (concat (map call_samples cs)) (concat (map call_attributions cs))"
    using Cons.IH [of "inst\<lparr>last_results := last_results inst @ call_scores inst c\<rparr>"]
      focus_evaluate_all_step [OF Cons.prems(1)] Cons.prems(2)
    by (simp add: call_scores_config)
  show ?case
    using here rest by (simp add: focus_scores_append)
qed

lemma focus_evaluate_all_append:
  "focus_evaluate_all inst (cs1 @ cs2) =
     (case focus_evaluate_all inst cs1 of
        (mid, Inl e) \<Rightarrow> (mid, Inl e)
      | (mid, Inr u) \<Rightarrow> focus_evaluate_all mid cs2)"
  by (induction cs1 arbitrary: inst) (auto split: prod.splits sum.splits)

lemma focus_evaluate_all_prefix:
  assumes "focus_evaluate_all inst cs = (inst', Inr ())"
  shows "\<exists>ys. last_results inst' = last_results (fst (focus_evaluate_all inst (take n cs))) @ ys"
proof -
  obtain mid r where pre: "focus_evaluate_all inst (take n cs) = (mid, r)"
    by (cases "focus_evaluate_all inst (take n cs)")
  have whole: "focus_evaluate_all inst (take n cs @ drop n cs) = (inst', Inr ())"
    using assms by simp
  have "focus_evaluate_all mid (drop n cs) = (inst', Inr ())"
    using whole pre unfolding focus_evaluate_all_append by (cases r) auto
  then have "\<exists>ys. last_results inst' = last_results mid @ ys"
    using focus_evaluate_all_grows [of mid "drop n cs"] by simp
  then show ?thesis using pre by simp
qed

text \<open>
  Claim C7.  After a sequence of successful mini-batch calls on one Focus instance, the
  accumulated results are the results from before followed by the scores of each call, in
  the order of the calls and of the samples within a call; their number has grown by the
  number of samples processed.  When the calls carry their attributions, the new part is
  the sequence of the scores of the whole batch (the mini-batches put together), one per
  sample, in batch order.  Every prefix of the sequence of calls leaves accumulated
  results that the final ones extend: nothing is dropped or reset.  A new instance
  starts with no results.
\<close>

theorem focus_accumulates:
  assumes "focus_evaluate_all inst cs = (inst', Inr ())"
  shows "last_results inst' = last_results inst @ concat (map (call_scores inst) cs)
    \<and> length (last_results inst')
        = length (last_results inst) + length (concat (map call_samples cs))
    \<and> (list_all (\<lambda>c. snd c \<noteq> None) cs \<longrightarrow>
         last_results inst' = last_results inst
           @ focus_scores (concat (map call_samples cs)) (concat (map call_attributions cs)))
    \<and> (\<forall>n. \<exists>ys. last_results inst'
                   = last_results (fst (focus_evaluate_all inst (take n cs))) @ ys)
    \<and> last_results (new_focus aggregate ef) = []"
proof -
  have st: "last_results inst' = last_results inst @ concat (map (call_scores inst) cs)"
    using focus_evaluate_all_state [OF assms] by simp
  have len: "length (last_results inst')
      = length (last_results inst) + length (concat (map call_samples cs))"
    using st focus_evaluate_all_count [OF assms] by simp
  have sup: "list_all (\<lambda>c. snd c \<noteq> None) cs \<Longrightarrow>
         last_results inst' = last_results inst
           @ focus_scores (concat (map call_samples cs)) (concat (map call_attributions cs))"
    using st focus_evaluate_all_supplied [OF assms] by simp
  have mono: "\<exists>ys. last_results inst'
                 = last_results (fst (focus_evaluate_all inst (take n cs))) @ ys" for n
    using focus_evaluate_all_prefix [OF assms] by blast
  show ?thesis
    using st len sup mono by (simp add: new_focus_def)
qed

theorem focus_accumulates_witness:
  "last_results (fst (focus_evaluate_all (new_focus False None) fixture_calls)) = [1, 1 / 2]"
proof -
  have run: "focus_evaluate_all (new_focus False None) fixture_calls
               = ((new_focus False None)\<lparr>last_results := [1, 1 / 2]\<rparr>, Inr ())"
    by (simp add: fixture_calls_def new_focus_def focus_evaluate_def focus_prepare_def then_do_def
          focus_scores_def focus_score_def positive_mass_def Let_def)
  show ?thesis
    using focus_accumulates [OF run] run by simp
qed

end
